theory Spec2Isabelle
  imports Complex_Main
begin

section \<open>JavaScript values used by the questionnaire engine\<close>

text \<open>
  Numbers. The engine computes with JavaScript numbers; the model keeps the three
  non-finite values apart and idealises finite doubles as real numbers (the rounding of a
  double operation is not modelled; the constants of the source, such as 2.5 or 0.1, are
  taken exactly). \<open>NaN\<close> is what \<open>parseInt\<close> returns on a text that is not a number and what
  \<open>0/0\<close> yields; every comparison with it is false and \<open>Math.max\<close> propagates it.
\<close>

datatype jsnum = NaN | PInf | NInf | Fin real

fun jslt :: "jsnum \<Rightarrow> jsnum \<Rightarrow> bool" where
  "jslt (Fin a) (Fin b) = (a < b)"
| "jslt (Fin a) PInf = True"
| "jslt NInf (Fin b) = True"
| "jslt NInf PInf = True"
| "jslt _ _ = False"

definition jsge :: "jsnum \<Rightarrow> jsnum \<Rightarrow> bool" where
  "jsge a b = (a \<noteq> NaN \<and> b \<noteq> NaN \<and> \<not> jslt a b)"

definition Math_max :: "jsnum \<Rightarrow> jsnum \<Rightarrow> jsnum" where
  "Math_max a b = (if a = NaN \<or> b = NaN then NaN else if jslt a b then b else a)"

definition Math_min :: "jsnum \<Rightarrow> jsnum \<Rightarrow> jsnum" where
  "Math_min a b = (if a = NaN \<or> b = NaN then NaN else if jslt b a then b else a)"


fun js_div :: "jsnum \<Rightarrow> jsnum \<Rightarrow> jsnum" where
  "js_div (Fin a) (Fin b) =
     (if b \<noteq> 0 then Fin (a / b)
      else if a = 0 then NaN else if 0 < a then PInf else NInf)"
| "js_div (Fin a) PInf = Fin 0"
| "js_div (Fin a) NInf = Fin 0"
| "js_div PInf (Fin b) = (if 0 \<le> b then PInf else NInf)"
| "js_div NInf (Fin b) = (if 0 \<le> b then NInf else PInf)"
| "js_div _ _ = NaN"

fun js_mul :: "jsnum \<Rightarrow> jsnum \<Rightarrow> jsnum" where
  "js_mul (Fin a) (Fin b) = Fin (a * b)"
| "js_mul NaN _ = NaN"
| "js_mul _ NaN = NaN"
| "js_mul PInf (Fin b) = (if b = 0 then NaN else if 0 < b then PInf else NInf)"
| "js_mul NInf (Fin b) = (if b = 0 then NaN else if 0 < b then NInf else PInf)"
| "js_mul (Fin a) PInf = (if a = 0 then NaN else if 0 < a then PInf else NInf)"
| "js_mul (Fin a) NInf = (if a = 0 then NaN else if 0 < a then NInf else PInf)"
| "js_mul PInf PInf = PInf"
| "js_mul NInf NInf = PInf"
| "js_mul PInf NInf = NInf"
| "js_mul NInf PInf = NInf"

text \<open>
  Strings are lists of characters. A value that the source tests for truthiness is a
  \<open>string option\<close>: \<open>None\<close> stands for \<open>undefined\<close>/\<open>null\<close>, and the empty string is the
  only falsy string.
\<close>

definition truthy :: "string option \<Rightarrow> bool" where
  "truthy v = (case v of None \<Rightarrow> False | Some s \<Rightarrow> s \<noteq> [])"

text \<open>\<open>s.split(c)\<close> for a one-character separator: never empty, \<open>''''\<close> gives \<open>['''']\<close>.\<close>

fun split_acc :: "char \<Rightarrow> string \<Rightarrow> string \<Rightarrow> string list" where
  "split_acc c cur [] = [rev cur]"
| "split_acc c cur (x # xs) =
     (if x = c then rev cur # split_acc c [] xs else split_acc c (x # cur) xs)"

definition split_str :: "char \<Rightarrow> string \<Rightarrow> string list" where
  "split_str c s = split_acc c [] s"

text \<open>Array destructuring and indexing: a missing element is \<open>undefined\<close>.\<close>

definition at_index :: "'a list \<Rightarrow> int \<Rightarrow> 'a option" where
  "at_index xs i = (if 0 \<le> i \<and> i < int (length xs) then Some (xs ! nat i) else None)"

text \<open>\<open>Array.prototype.findIndex\<close>: the first index whose element passes, or \<open>-1\<close>.\<close>

fun findIndex :: "('a \<Rightarrow> bool) \<Rightarrow> 'a list \<Rightarrow> int" where
  "findIndex P [] = - 1"
| "findIndex P (x # xs) =
     (if P x then 0 else (let i = findIndex P xs in if i < 0 then - 1 else i + 1))"

text \<open>
  Whitespace as the regular expression \<open>\s\<close> and \<open>trim\<close> see it, on the ASCII range
  (characters are bytes here). \<open>text.split(/\s+/)\<close> cuts at every maximal run of
  whitespace, so a text that starts or ends with whitespace yields an empty piece there.
\<close>

definition isWhitespace :: "char \<Rightarrow> bool" where
  "isWhitespace c = (c \<in> set [CHR '' '', CHR 0x09, CHR 0x0A, CHR 0x0B, CHR 0x0C, CHR 0x0D])"

fun split_ws_acc :: "bool \<Rightarrow> string \<Rightarrow> string \<Rightarrow> string list" where
  "split_ws_acc inws cur [] = [rev cur]"
| "split_ws_acc inws cur (x # xs) =
     (if isWhitespace x then
        (if inws then split_ws_acc True cur xs else rev cur # split_ws_acc True [] xs)
      else split_ws_acc False (x # cur) xs)"

definition split_ws :: "string \<Rightarrow> string list" where
  "split_ws s = split_ws_acc False [] s"



fun starts_with :: "string \<Rightarrow> string \<Rightarrow> bool" where
  "starts_with s [] = True"
| "starts_with [] (p # ps) = False"
| "starts_with (c # cs) (p # ps) = (c = p \<and> starts_with cs ps)"


text \<open>
  \<open>parseInt\<close> without a radix: leading whitespace, an optional sign, an optional
  \<open>0x\<close> prefix, then the longest run of digits; \<open>NaN\<close> when there is no digit.
  \<open>parseInt(undefined)\<close> is \<open>NaN\<close>.
\<close>

definition digit_of :: "char \<Rightarrow> nat option" where
  "digit_of c =
     map_of [(CHR ''0'', 0), (CHR ''1'', 1), (CHR ''2'', 2), (CHR ''3'', 3), (CHR ''4'', 4),
             (CHR ''5'', 5), (CHR ''6'', 6), (CHR ''7'', 7), (CHR ''8'', 8), (CHR ''9'', 9),
             (CHR ''a'', 10), (CHR ''b'', 11), (CHR ''c'', 12), (CHR ''d'', 13),
             (CHR ''e'', 14), (CHR ''f'', 15), (CHR ''A'', 10), (CHR ''B'', 11),
             (CHR ''C'', 12), (CHR ''D'', 13), (CHR ''E'', 14), (CHR ''F'', 15)] c"

definition is_digit :: "nat \<Rightarrow> char \<Rightarrow> bool" where
  "is_digit radix c = (case digit_of c of None \<Rightarrow> False | Some d \<Rightarrow> d < radix)"

definition digits_value :: "nat \<Rightarrow> string \<Rightarrow> nat" where
  "digits_value radix ds =
     foldl (\<lambda>a c. a * radix + (case digit_of c of None \<Rightarrow> 0 | Some d \<Rightarrow> d)) 0 ds"

definition parseInt_str :: "string \<Rightarrow> jsnum" where
  "parseInt_str s =
     (let s1 = dropWhile isWhitespace s;
          neg = starts_with s1 ''-'';
          s2 = (if starts_with s1 ''-'' \<or> starts_with s1 ''+'' then drop 1 s1 else s1);
          hex = (starts_with s2 ''0x'' \<or> starts_with s2 ''0X'');
          radix = (if hex then 16 else 10);
          s3 = (if hex then drop 2 s2 else s2);
          ds = takeWhile (is_digit radix) s3
      in if ds = [] then NaN
         else Fin (of_int ((if neg then - 1 else 1) * int (digits_value radix ds))))"

definition parseInt :: "string option \<Rightarrow> jsnum" where
  "parseInt v = (case v of None \<Rightarrow> NaN | Some s \<Rightarrow> parseInt_str s)"

section \<open>Data model: catalog, responses, skip rules\<close>

text \<open>
  The questionnaire configuration object (\<open>LTA_QUESTIONNAIRE\<close>) is a parameter of every
  function below. A question carries its id, its section, the \<open>required\<close> flag and the
  optional \<open>logic.stakeholderTypes\<close> array.
\<close>

record qlogic =
  stakeholderTypes :: "string list option"

record question =
  q_id :: string
  q_section :: string
  q_required :: bool
  q_logic :: "qlogic option"

text \<open>
  A response as the renderer builds it: \<open>value\<close> for single-select, likert and open-ended
  questions, \<open>values\<close> for multiple-select ones, \<open>matrix\<close> for matrix questions. A field
  that is absent is \<open>None\<close>.
\<close>

record response =
  r_questionId :: string
  r_section :: string
  r_value :: "string option"
  r_values :: "string list option"
  r_matrix :: "(string \<times> string) list option"

text \<open>
  The router's \<open>responses\<close> is a JavaScript \<open>Map\<close> from question id to response: an
  association list whose keys are distinct. \<open>Map.set\<close> overwrites or appends,
  \<open>Map.get\<close> is \<open>map_of\<close>, \<open>Map.size\<close> is the number of entries. The object stores of
  the database are keyed the same way (\<open>put\<close> is an upsert).
\<close>

type_synonym responses = "(string \<times> response) list"

definition Map_wf :: "responses \<Rightarrow> bool" where
  "Map_wf rs = distinct (map fst rs)"

fun Map_set :: "('k \<times> 'v) list \<Rightarrow> 'k \<Rightarrow> 'v \<Rightarrow> ('k \<times> 'v) list" where
  "Map_set [] k v = [(k, v)]"
| "Map_set ((k', v') # rs) k v =
     (if k' = k then (k, v) # rs else (k', v') # Map_set rs k v)"

definition Map_has :: "responses \<Rightarrow> string \<Rightarrow> bool" where
  "Map_has rs k = (map_of rs k \<noteq> None)"


text \<open>
  A skip rule of \<open>config.skipLogic\<close>. Its \<open>target\<close> is an object with a \<open>question\<close>
  property (action \<open>skipTo\<close>) or a range string \<open>"qA-qB"\<close> (action \<open>showSection\<close>);
  \<open>from\<close> and \<open>condition\<close> may be absent. The condition names the response it reads
  (\<open>from\<close>) and one of the three tests \<open>value\<close>, \<open>includesNone\<close>, \<open>includesAny\<close>.
\<close>

datatype target = TUndefined | TObj "string option" | TStr string

record condition =
  c_from :: string
  c_value :: "string option"
  c_includesNone :: bool
  c_includesAny :: bool

record skip_rule =
  sl_action :: string
  sl_target :: target
  sl_from :: "string option"
  sl_condition :: "condition option"

record config =
  questions :: "question list"
  skipLogic :: "(string \<times> skip_rule) list"

datatype error = TypeError | Error string

section \<open>LTASkipLogicProcessor\<close>

text \<open>
  \<open>evaluateCondition\<close>: the three tests in the order of the source. The source returns
  \<open>response && ...\<close>, whose only use is the test of an \<open>if\<close>; the model returns its
  truthiness.
\<close>

definition evaluateCondition :: "condition \<Rightarrow> responses \<Rightarrow> bool" where
  "evaluateCondition c rs =
     (if truthy (c_value c) then
        (case map_of rs (c_from c) of
           None \<Rightarrow> False
         | Some r \<Rightarrow> r_value r = c_value c)
      else if c_includesNone c then
        (case map_of rs (c_from c) of
           None \<Rightarrow> True
         | Some r \<Rightarrow> (case r_values r of None \<Rightarrow> True | Some vs \<Rightarrow> length vs = 0))
      else if c_includesAny c then
        (case map_of rs (c_from c) of
           None \<Rightarrow> False
         | Some r \<Rightarrow> (case r_values r of None \<Rightarrow> False | Some vs \<Rightarrow> 0 < length vs))
      else False)"

text \<open>
  The loop of \<open>shouldSkip\<close> over \<open>Object.entries(this.skipLogic)\<close>: a rule whose key
  starts with the question id (up to the first underscore) and whose condition holds
  makes the question skipped. Reading \<open>rule.condition.value\<close> of a rule without a
  condition is a TypeError.
\<close>

fun skip_entries :: "(string \<times> skip_rule) list \<Rightarrow> string \<Rightarrow> responses \<Rightarrow> error + bool" where
  "skip_entries [] questionId rs = Inr False"
| "skip_entries ((logicKey, rule) # es) questionId rs =
     (if at_index (split_str CHR ''_'' logicKey) 0 = Some questionId then
        (case sl_condition rule of
           None \<Rightarrow> Inl TypeError
         | Some c \<Rightarrow>
             if evaluateCondition c rs then Inr True else skip_entries es questionId rs)
      else skip_entries es questionId rs)"

definition stakeholder_excluded :: "question \<Rightarrow> string option \<Rightarrow> bool" where
  "stakeholder_excluded q stakeholderType =
     (case q_logic q of
        None \<Rightarrow> False
      | Some l \<Rightarrow>
          (case stakeholderTypes l of
             None \<Rightarrow> False
           | Some ts \<Rightarrow>
               \<not> truthy stakeholderType \<or>
               (case stakeholderType of None \<Rightarrow> True | Some s \<Rightarrow> s \<notin> set ts)))"

definition shouldSkip :: "config \<Rightarrow> string \<Rightarrow> responses \<Rightarrow> string option \<Rightarrow> error + bool" where
  "shouldSkip cfg questionId rs stakeholderType =
     (case find (\<lambda>q. q_id q = questionId) (questions cfg) of
        None \<Rightarrow> Inr False
      | Some question \<Rightarrow>
          if stakeholder_excluded question stakeholderType then Inr True
          else skip_entries (skipLogic cfg) questionId rs)"

text \<open>
  \<open>questions.findIndex(q => q.id === questionId)\<close> for an id that may be \<open>undefined\<close>
  (an absent \<open>from\<close>, a range without a second part): no question has that id.
\<close>

definition index_of_id :: "config \<Rightarrow> string option \<Rightarrow> int" where
  "index_of_id cfg i =
     (case i of None \<Rightarrow> - 1 | Some s \<Rightarrow> findIndex (\<lambda>q. q_id q = s) (questions cfg))"

text \<open>
  \<open>getNextQuestionAfter\<close> recurses on the id of the skipped question, looking its index
  up again; with a duplicated id the index can go back and the recursion does not end,
  so the model carries fuel and \<open>None\<close> is "no answer".
\<close>

fun getNextQuestionAfter ::
  "nat \<Rightarrow> config \<Rightarrow> string option \<Rightarrow> responses \<Rightarrow> string option \<Rightarrow> (error + question option) option"
where
  "getNextQuestionAfter 0 cfg questionId rs st = None"
| "getNextQuestionAfter (Suc n) cfg questionId rs st =
     (let currentIndex = index_of_id cfg questionId;
          nextQuestion = at_index (questions cfg) (currentIndex + 1)
      in case nextQuestion of
           None \<Rightarrow> Some (Inr None)
         | Some nq \<Rightarrow>
             (case shouldSkip cfg (q_id nq) rs st of
                Inl e \<Rightarrow> Some (Inl e)
              | Inr skip \<Rightarrow>
                  if skip then getNextQuestionAfter n cfg (Some (q_id nq)) rs st
                  else Some (Inr (Some nq))))"

text \<open>
  The \<open>for\<close> loop of \<open>handleSectionRouting\<close> over the indices from the start question to
  the end question: \<open>questions[-1]\<close> is \<open>undefined\<close> and reading its id is a TypeError.
\<close>

fun section_scan ::
  "config \<Rightarrow> responses \<Rightarrow> string option \<Rightarrow> int list \<Rightarrow> error + question option"
where
  "section_scan cfg rs st [] = Inr None"
| "section_scan cfg rs st (i # is) =
     (case at_index (questions cfg) i of
        None \<Rightarrow> Inl TypeError
      | Some question \<Rightarrow>
          (case shouldSkip cfg (q_id question) rs st of
             Inl e \<Rightarrow> Inl e
           | Inr skip \<Rightarrow> if skip then section_scan cfg rs st is else Inr (Some question)))"

definition handleSectionRouting ::
  "nat \<Rightarrow> config \<Rightarrow> skip_rule \<Rightarrow> responses \<Rightarrow> string option \<Rightarrow> (error + question option) option"
where
  "handleSectionRouting fuel cfg logicRule rs st =
     (case sl_target logicRule of
        TStr targetRange \<Rightarrow>
          (let parts = split_str CHR ''-'' targetRange;
               startQ = at_index parts 0;
               endQ = at_index parts 1
           in case section_scan cfg rs st [index_of_id cfg startQ .. index_of_id cfg endQ] of
                Inl e \<Rightarrow> Some (Inl e)
              | Inr (Some question) \<Rightarrow> Some (Inr (Some question))
              | Inr None \<Rightarrow> getNextQuestionAfter fuel cfg endQ rs st)
      | _ \<Rightarrow> Some (Inl TypeError))"

definition applySkipLogic ::
  "nat \<Rightarrow> config \<Rightarrow> skip_rule \<Rightarrow> responses \<Rightarrow> string option \<Rightarrow> (error + question option) option"
where
  "applySkipLogic fuel cfg logicRule rs st =
     (if sl_action logicRule = ''skipTo'' then
        (case sl_target logicRule of
           TUndefined \<Rightarrow> Some (Inl TypeError)
         | TObj None \<Rightarrow> Some (Inr None)
         | TObj (Some t) \<Rightarrow> Some (Inr (find (\<lambda>q. q_id q = t) (questions cfg)))
         | TStr s \<Rightarrow> Some (Inr None))
      else if sl_action logicRule = ''show'' then
        getNextQuestionAfter fuel cfg (sl_from logicRule) rs st
      else if sl_action logicRule = ''showSection'' then
        handleSectionRouting fuel cfg logicRule rs st
      else getNextQuestionAfter fuel cfg (sl_from logicRule) rs st)"

text \<open>
  The key of the custom logic of the current question is the template string
  \<open>`${currentQuestionId}_${responses.get(currentQuestionId)?.value}`\<close>; an absent
  response or value prints as \<open>undefined\<close>. The rule is looked up among the own keys of
  \<open>skipLogic\<close>.
\<close>

definition logicKey_of :: "string \<Rightarrow> responses \<Rightarrow> string" where
  "logicKey_of currentQuestionId rs =
     currentQuestionId @ ''_'' @
       (case map_of rs currentQuestionId of
          None \<Rightarrow> ''undefined''
        | Some r \<Rightarrow> (case r_value r of None \<Rightarrow> ''undefined'' | Some v \<Rightarrow> v))"

fun getNextQuestion ::
  "nat \<Rightarrow> config \<Rightarrow> string \<Rightarrow> responses \<Rightarrow> string option \<Rightarrow> (error + question option) option"
where
  "getNextQuestion 0 cfg currentQuestionId rs st = None"
| "getNextQuestion (Suc n) cfg currentQuestionId rs st =
     (case find (\<lambda>q. q_id q = currentQuestionId) (questions cfg) of
        None \<Rightarrow> Some (Inr (at_index (questions cfg) 0))
      | Some currentQuestion \<Rightarrow>
          (case map_of (skipLogic cfg) (logicKey_of currentQuestionId rs) of
             Some logicRule \<Rightarrow> applySkipLogic (Suc n) cfg logicRule rs st
           | None \<Rightarrow>
               (let currentIndex = findIndex (\<lambda>q. q_id q = currentQuestionId) (questions cfg);
                    nextQuestion = at_index (questions cfg) (currentIndex + 1)
                in case nextQuestion of
                     None \<Rightarrow> Some (Inr None)
                   | Some nq \<Rightarrow>
                       (case shouldSkip cfg (q_id nq) rs st of
                          Inl e \<Rightarrow> Some (Inl e)
                        | Inr skip \<Rightarrow>
                            if skip then getNextQuestion n cfg (q_id nq) rs st
                            else Some (Inr (Some nq))))))"

section \<open>LTARouter: session state, progress and submission gate\<close>

text \<open>
  A session record as \<open>createSession\<close> builds it; dates are clock readings in
  milliseconds. The router keeps its own copy of the session (\<open>currentSession\<close>, absent
  before \<open>initialize\<close>), the configuration and the \<open>responses\<close> map.
\<close>

record session =
  s_id :: nat
  s_completionStatus :: string
  s_completedAt :: "nat option"
  s_currentQuestion :: string
  s_currentSection :: string
  s_stakeholderType :: "string option"
  s_progress :: jsnum
  s_lastModified :: nat

record router =
  rt_config :: config
  rt_currentSession :: "session option"
  rt_currentQuestionIndex :: nat
  rt_responses :: responses

definition canSubmit :: "router \<Rightarrow> bool" where
  "canSubmit rt =
     (let requiredQuestions = filter q_required (questions (rt_config rt));
          unansweredRequired =
            filter (\<lambda>q. \<not> Map_has (rt_responses rt) (q_id q)) requiredQuestions
      in length unansweredRequired = 0)"



text \<open>
  The final analytics that \<open>generateFinalAnalytics\<close> assembles and stores under the
  metric type \<open>final_assessment\<close>.
\<close>

record awareness_metrics =
  unaidedRecallScore :: jsnum
  aidedRecallScore :: jsnum

record engagement_metrics =
  interestScore :: jsnum

record conversion_metrics =
  npsScore :: jsnum
  npsCategory :: string

record strategic_metrics =
  overallImpression :: jsnum

record final_analytics =
  awareness :: awareness_metrics
  engagement :: engagement_metrics
  conversion :: conversion_metrics
  strategic :: strategic_metrics

record analytics_rec =
  a_sessionId :: nat
  a_metricType :: string
  a_data :: final_analytics
  a_calculatedAt :: nat

text \<open>
  The database (\<open>LTA_DB\<close>): the three object stores with their key paths. The world of
  one page is the router, the database and the clock; \<open>new Date()\<close> takes the next
  reading of the clock. Storage failures of IndexedDB itself are not modelled.
\<close>

record db =
  db_sessions :: "(nat \<times> session) list"
  db_responses :: "((nat \<times> string) \<times> response) list"
  db_analytics :: "((nat \<times> string) \<times> analytics_rec) list"

record world =
  w_router :: router
  w_db :: db
  w_clock :: "nat \<Rightarrow> nat"
  w_reads :: nat

definition new_Date :: "world \<Rightarrow> nat \<times> world" where
  "new_Date w = (w_clock w (w_reads w), w\<lparr> w_reads := w_reads w + 1 \<rparr>)"

definition getSession :: "nat \<Rightarrow> world \<Rightarrow> session option" where
  "getSession sessionId w = map_of (db_sessions (w_db w)) sessionId"

definition getSessionResponses :: "nat \<Rightarrow> world \<Rightarrow> response list" where
  "getSessionResponses sessionId w =
     map snd (filter (\<lambda>(k, r). fst k = sessionId) (db_responses (w_db w)))"

definition updateSession :: "nat \<Rightarrow> (session \<Rightarrow> session) \<Rightarrow> world \<Rightarrow> (error + session) \<times> world" where
  "updateSession sessionId updates w =
     (case map_of (db_sessions (w_db w)) sessionId of
        None \<Rightarrow> (Inl (Error ''Session not found''), w)
      | Some session \<Rightarrow>
          (let (now, w1) = new_Date w;
               updatedSession = (updates session)\<lparr> s_lastModified := now \<rparr>
           in (Inr updatedSession,
               w1\<lparr> w_db := (w_db w1)\<lparr> db_sessions :=
                        Map_set (db_sessions (w_db w1)) (s_id updatedSession) updatedSession \<rparr> \<rparr>)))"



subsection \<open>Navigation\<close>

text \<open>
  \<open>initialize\<close> stores whatever \<open>getSession\<close> returned before it tests it, and throws
  \<open>Session not found\<close> when there is none.
\<close>

definition initialize :: "nat \<Rightarrow> world \<Rightarrow> (error + session) \<times> world" where
  "initialize sessionId w =
     (let found = getSession sessionId w;
          w1 = w\<lparr> w_router := (w_router w)\<lparr> rt_currentSession := found \<rparr> \<rparr>
      in case found of
           None \<Rightarrow> (Inl (Error ''Session not found''), w1)
         | Some session \<Rightarrow>
             (let sessionResponses = getSessionResponses sessionId w1
              in (Inr session,
                  w1\<lparr> w_router := (w_router w1)\<lparr> rt_responses :=
                         foldl (\<lambda>m r. Map_set m (r_questionId r) r)
                           (rt_responses (w_router w1)) sessionResponses \<rparr> \<rparr>)))"

definition navigateToQuestion :: "string \<Rightarrow> world \<Rightarrow> (error + question) \<times> world" where
  "navigateToQuestion questionId w =
     (case find (\<lambda>q. q_id q = questionId) (questions (rt_config (w_router w))) of
        None \<Rightarrow> (Inl (Error (''Question '' @ questionId @ '' not found'')), w)
      | Some question \<Rightarrow>
          (case rt_currentSession (w_router w) of
             None \<Rightarrow> (Inl TypeError, w)
           | Some cs \<Rightarrow>
               (let cs1 = cs\<lparr> s_currentQuestion := questionId,
                               s_currentSection := q_section question \<rparr>;
                    w1 = w\<lparr> w_router := (w_router w)\<lparr> rt_currentSession := Some cs1 \<rparr> \<rparr>
                in case updateSession (s_id cs1)
                          (\<lambda>s. s\<lparr> s_currentQuestion := questionId,
                                   s_currentSection := q_section question \<rparr>) w1 of
                     (Inl e, w2) \<Rightarrow> (Inl e, w2)
                   | (Inr u, w2) \<Rightarrow> (Inr question, w2))))"

text \<open>
  The processor is an object that holds the configuration; its \<open>getNextQuestion\<close> is
  called with the router's session fields and returns the world as it found it.
\<close>

definition processor_getNextQuestion ::
  "nat \<Rightarrow> string \<Rightarrow> responses \<Rightarrow> string option \<Rightarrow> world \<Rightarrow> (error + question option) option \<times> world"
where
  "processor_getNextQuestion fuel currentQuestionId rs stakeholderType w =
     (getNextQuestion fuel (rt_config (w_router w)) currentQuestionId rs stakeholderType, w)"

subsection \<open>Completion and the final analytics\<close>














section \<open>LTAAnalyticsEngine\<close>

text \<open>
  The funnel metrics object has one score per stage; \<open>realTimeMetrics.get('funnel')\<close>
  is absent until the first update and then defaults to zero everywhere.
\<close>

datatype stage = Awareness | Interest | Consideration | Action | Advocacy

type_synonym funnel = "stage \<Rightarrow> jsnum"

record engine =
  en_sessionId :: "nat option"
  en_funnel :: "funnel option"

definition determineFunnelStage :: "response \<Rightarrow> stage option" where
  "determineFunnelStage r =
     (if r_section r = ''awareness'' then Some Awareness
      else if r_section r = ''interest'' then Some Interest
      else if r_section r = ''consideration'' then Some Consideration
      else if r_section r = ''action'' then Some Action
      else if r_section r = ''advocacy'' then Some Advocacy
      else None)"

definition calculateRecallScore :: "string option \<Rightarrow> jsnum" where
  "calculateRecallScore v =
     (case v of
        None \<Rightarrow> Fin 0
      | Some t \<Rightarrow>
          if t = [] then Fin 0
          else (let wordCount = length (split_ws t)
                in Math_min (Fin (of_nat wordCount * 2)) (Fin 10)))"

definition mapInterestToScore :: "string option \<Rightarrow> jsnum" where
  "mapInterestToScore v =
     (let mapping = [(''Not at all'', 0), (''Slightly'', 5 / 2), (''Moderately'', 5),
                     (''Significantly'', 15 / 2), (''Extremely'', 10 :: real)]
      in case v of
           None \<Rightarrow> Fin 0
         | Some s \<Rightarrow> (case map_of mapping s of None \<Rightarrow> Fin 0 | Some x \<Rightarrow> Fin x))"

definition any_selected :: "string list option \<Rightarrow> jsnum" where
  "any_selected vs =
     (case vs of None \<Rightarrow> Fin 0 | Some l \<Rightarrow> if 0 < length l then Fin 10 else Fin 0)"

definition calculateStageScore :: "response \<Rightarrow> jsnum" where
  "calculateStageScore r =
     (if r_questionId r = ''q8'' then calculateRecallScore (r_value r)
      else if r_questionId r = ''q20'' then mapInterestToScore (r_value r)
      else if r_questionId r = ''q31'' then any_selected (r_values r)
      else if r_questionId r = ''q43'' then any_selected (r_values r)
      else if r_questionId r = ''q54'' then
        js_mul (js_div (parseInt (r_value r)) (Fin 10)) (Fin 10)
      else Fin 5)"

definition default_funnel :: funnel where
  "default_funnel = (\<lambda>s. Fin 0)"

definition current_funnel :: "engine \<Rightarrow> funnel" where
  "current_funnel e = (case en_funnel e of None \<Rightarrow> default_funnel | Some f \<Rightarrow> f)"

definition updateFunnelMetrics :: "response \<Rightarrow> engine \<Rightarrow> engine" where
  "updateFunnelMetrics r e =
     (case determineFunnelStage r of
        None \<Rightarrow> e
      | Some funnelStage \<Rightarrow>
          (let currentMetrics = current_funnel e
           in e\<lparr> en_funnel :=
                   Some (currentMetrics
                           (funnelStage :=
                              Math_max (currentMetrics funnelStage) (calculateStageScore r))) \<rparr>))"









section \<open>Example catalogs, responses and sessions\<close>

text \<open>
  Concrete inputs on which the properties below are evaluated: catalogs of three
  required questions, of one question and of none, a catalog with a
  stakeholder-restricted question, a catalog with a jump rule from \<open>q1\<close> to \<open>q5\<close>, a
  session that is open in the router and stored in the database, and a fresh analytics
  engine with three responses.
\<close>

definition ex_q :: "string \<Rightarrow> string \<Rightarrow> bool \<Rightarrow> question" where
  "ex_q i sec req = \<lparr> q_id = i, q_section = sec, q_required = req, q_logic = None \<rparr>"

definition ex_r :: "string \<Rightarrow> string \<Rightarrow> string option \<Rightarrow> response" where
  "ex_r i sec v =
     \<lparr> r_questionId = i, r_section = sec, r_value = v, r_values = None, r_matrix = None \<rparr>"

definition ex_catalog3 :: config where
  "ex_catalog3 =
     \<lparr> questions = [ex_q ''q1'' ''screening'' True, ex_q ''q2'' ''awareness'' True,
                     ex_q ''q3'' ''awareness'' True],
       skipLogic = [] \<rparr>"



definition ex_router :: "config \<Rightarrow> responses \<Rightarrow> router" where
  "ex_router cfg rs =
     \<lparr> rt_config = cfg, rt_currentSession = None, rt_currentQuestionIndex = 0,
       rt_responses = rs \<rparr>"

definition ex_two :: responses where
  "ex_two = [(''q1'', ex_r ''q1'' ''screening'' (Some ''consumer'')),
             (''q2'', ex_r ''q2'' ''awareness'' (Some ''Yes''))]"

definition ex_three :: responses where
  "ex_three = ex_two @ [(''q3'', ex_r ''q3'' ''awareness'' (Some ''No''))]"


definition ex_q9 :: question where
  "ex_q9 = \<lparr> q_id = ''q9'', q_section = ''awareness'', q_required = False,
             q_logic = Some \<lparr> stakeholderTypes = Some [''retailer''] \<rparr> \<rparr>"

definition ex_catalog_q9 :: config where
  "ex_catalog_q9 =
     \<lparr> questions = [ex_q ''q1'' ''screening'' True, ex_q9], skipLogic = [] \<rparr>"

definition ex_session :: session where
  "ex_session =
     \<lparr> s_id = 1, s_completionStatus = ''in_progress'', s_completedAt = None,
       s_currentQuestion = ''q1'', s_currentSection = ''screening'',
       s_stakeholderType = None, s_progress = Fin 0, s_lastModified = 0 \<rparr>"

definition ex_world :: "config \<Rightarrow> responses \<Rightarrow> world" where
  "ex_world cfg rs =
     \<lparr> w_router = (ex_router cfg rs)\<lparr> rt_currentSession := Some ex_session \<rparr>,
       w_db = \<lparr> db_sessions = [(1, ex_session)], db_responses = [], db_analytics = [] \<rparr>,
       w_clock = (\<lambda>i. 1000 + i),
       w_reads = 0 \<rparr>"


definition ex_engine :: engine where
  "ex_engine = \<lparr> en_sessionId = Some 1, en_funnel = None \<rparr>"

definition ex_recall :: response where
  "ex_recall = ex_r ''q8'' ''awareness'' (Some ''Limpopo tourism radio campaign last year'')"

definition ex_nps_label :: response where
  "ex_nps_label = ex_r ''q54'' ''advocacy'' (Some ''Very likely'')"

definition ex_q55 :: response where
  "ex_q55 = ex_r ''q55'' ''advocacy'' (Some ''Yes'')"

definition ex_jump_rule :: skip_rule where
  "ex_jump_rule =
     \<lparr> sl_action = ''skipTo'', sl_target = TObj (Some ''q5''), sl_from = Some ''q1'',
       sl_condition =
         Some \<lparr> c_from = ''q1'', c_value = Some ''B'', c_includesNone = False,
                c_includesAny = False \<rparr> \<rparr>"

definition ex_catalog5 :: config where
  "ex_catalog5 =
     \<lparr> questions = [ex_q ''q1'' ''screening'' True, ex_q ''q2'' ''awareness'' False,
                     ex_q ''q3'' ''awareness'' False, ex_q ''q4'' ''interest'' False,
                     ex_q ''q5'' ''interest'' False],
       skipLogic = [(''q1_B'', ex_jump_rule)] \<rparr>"

definition ex_answer_B :: responses where
  "ex_answer_B = [(''q1'', ex_r ''q1'' ''screening'' (Some ''B''))]"

definition ex_jump_world :: world where
  "ex_jump_world = ex_world ex_catalog5 ex_answer_B"

section \<open>Properties of the skip logic\<close>

subsection \<open>Truthiness, the response map, lookup by id\<close>

lemma truthy_simps:
  "truthy None = False" "truthy (Some s) = (s \<noteq> [])"
  by (simp_all add: truthy_def)

lemma Map_wf_empty: "Map_wf []"
  by (simp add: Map_wf_def)

lemma Map_set_keys:
  "map fst (Map_set rs k v) = (if k \<in> fst ` set rs then map fst rs else map fst rs @ [k])"
  by (induction rs) (fastforce simp: image_iff)+

lemma Map_set_wf: "Map_wf rs \<Longrightarrow> Map_wf (Map_set rs k v)"
  by (simp add: Map_wf_def Map_set_keys)

lemma find_distinct_id:
  "distinct (map f xs) \<Longrightarrow> x \<in> set xs \<Longrightarrow> find (\<lambda>y. f y = f x) xs = Some x"
  by (induction xs) (auto simp: rev_image_eqI)

subsection \<open>Fuel: the answer does not depend on it, and a catalog with unique ids needs little\<close>

lemma findIndex_bounds: "- 1 \<le> findIndex P xs \<and> findIndex P xs < int (length xs)"
  by (induction xs) (auto simp: Let_def)

lemma findIndex_distinct:
  "distinct (map f xs) \<Longrightarrow> i < length xs \<Longrightarrow> findIndex (\<lambda>y. f y = f (xs ! i)) xs = int i"
proof (induction xs arbitrary: i)
  case Nil
  then show ?case by simp
next
  case (Cons x xs)
  show ?case
  proof (cases i)
    case 0
    then show ?thesis by simp
  next
    case (Suc j)
    with Cons.prems have j: "j < length xs" by simp
    then have "xs ! j \<in> set xs" by simp
    with Cons.prems(1) have ne: "f x \<noteq> f (xs ! j)" by auto
    have "findIndex (\<lambda>y. f y = f (xs ! j)) xs = int j"
      using Cons.IH[OF _ j] Cons.prems(1) by simp
    with ne Suc show ?thesis by (simp add: Let_def)
  qed
qed

lemma find_Some_findIndex: "find P xs = Some x \<Longrightarrow> 0 \<le> findIndex P xs"
  by (induction xs) (auto simp: Let_def split: if_splits)

lemma index_of_id_bounds:
  "- 1 \<le> index_of_id cfg q \<and> index_of_id cfg q < int (length (questions cfg))"
  using findIndex_bounds[of "\<lambda>x. q_id x = the q" "questions cfg"]
  by (cases q) (auto simp: index_of_id_def)

lemma at_index_Some:
  "at_index xs i = Some x \<Longrightarrow> 0 \<le> i \<and> i < int (length xs) \<and> x = xs ! nat i"
  by (auto simp: at_index_def split: if_splits)

lemma at_index_None: "int (length xs) \<le> i \<Longrightarrow> at_index xs i = None"
  by (simp add: at_index_def)

lemma getNextQuestionAfter_mono:
  "getNextQuestionAfter n cfg q rs st = Some r \<Longrightarrow>
   getNextQuestionAfter (n + k) cfg q rs st = Some r"
proof (induction n arbitrary: q)
  case 0
  then show ?case by simp
next
  case (Suc n)
  then show ?case
    by (auto simp: Let_def split: option.splits sum.splits if_splits)
qed

lemma handleSectionRouting_mono:
  "handleSectionRouting n cfg rule rs st = Some r \<Longrightarrow>
   handleSectionRouting (n + k) cfg rule rs st = Some r"
  by (auto simp: handleSectionRouting_def Let_def getNextQuestionAfter_mono
           split: target.splits sum.splits option.splits)

lemma applySkipLogic_mono:
  "applySkipLogic n cfg rule rs st = Some r \<Longrightarrow>
   applySkipLogic (n + k) cfg rule rs st = Some r"
  by (auto simp: applySkipLogic_def getNextQuestionAfter_mono handleSectionRouting_mono
           split: if_splits target.splits option.splits)

lemma getNextQuestion_mono:
  "getNextQuestion n cfg cur rs st = Some r \<Longrightarrow>
   getNextQuestion (n + k) cfg cur rs st = Some r"
proof (induction n arbitrary: cur)
  case 0
  then show ?case by simp
next
  case (Suc n)
  have step: "applySkipLogic (Suc n) cfg rule rs st = Some r \<Longrightarrow>
              applySkipLogic (Suc (n + k)) cfg rule rs st = Some r" for rule
    using applySkipLogic_mono[of "Suc n" cfg rule rs st r k] by simp
  from Suc show ?case
    by (auto simp: Let_def step split: option.splits sum.splits if_splits)
qed

lemma getNextQuestion_fuel_independent:
  assumes "getNextQuestion n cfg cur rs st = Some r1"
    and "getNextQuestion m cfg cur rs st = Some r2"
  shows "r1 = r2"
proof (cases "n \<le> m")
  case True
  then obtain k where "m = n + k" using le_Suc_ex by blast
  with getNextQuestion_mono[OF assms(1), of k] assms(2) show ?thesis by simp
next
  case False
  then obtain k where "n = m + k" using le_Suc_ex nat_le_linear by blast
  with getNextQuestion_mono[OF assms(2), of k] assms(1) show ?thesis by simp
qed

lemma getNextQuestionAfter_total:
  assumes d: "distinct (map q_id (questions cfg))"
  shows "int (length (questions cfg)) \<le> index_of_id cfg q + 1 + int n \<Longrightarrow>
         \<exists>r. getNextQuestionAfter (Suc n) cfg q rs st = Some r"
proof (induction n arbitrary: q)
  case 0
  then have "at_index (questions cfg) (index_of_id cfg q + 1) = None"
    by (simp add: at_index_None)
  then show ?case by simp
next
  case (Suc n)
  show ?case
  proof (cases "at_index (questions cfg) (index_of_id cfg q + 1)")
    case None
    then show ?thesis by simp
  next
    case (Some nq)
    from at_index_Some[OF Some]
    have rng: "0 \<le> index_of_id cfg q + 1" "index_of_id cfg q + 1 < int (length (questions cfg))"
      and nq: "nq = questions cfg ! nat (index_of_id cfg q + 1)" by simp_all
    have idx: "index_of_id cfg (Some (q_id nq)) = index_of_id cfg q + 1"
      using findIndex_distinct[OF d, of "nat (index_of_id cfg q + 1)"] rng nq
      by (simp add: index_of_id_def)
    have "\<exists>r. getNextQuestionAfter (Suc n) cfg (Some (q_id nq)) rs st = Some r"
      using Suc.prems idx by (intro Suc.IH) simp
    then show ?thesis
      using Some by (auto simp: Let_def split: sum.splits)
  qed
qed

lemma getNextQuestionAfter_total_length:
  assumes "distinct (map q_id (questions cfg))" and "length (questions cfg) \<le> n"
  shows "\<exists>r. getNextQuestionAfter (Suc n) cfg q rs st = Some r"
  using getNextQuestionAfter_total[OF assms(1), of q n rs st] index_of_id_bounds[of cfg q] assms(2)
  by simp

lemma applySkipLogic_total:
  assumes "distinct (map q_id (questions cfg))" and "length (questions cfg) \<le> n"
  shows "\<exists>r. applySkipLogic (Suc n) cfg rule rs st = Some r"
  using getNextQuestionAfter_total_length[OF assms]
  by (auto simp: applySkipLogic_def handleSectionRouting_def Let_def
           split: target.splits option.splits sum.splits simp del: getNextQuestionAfter.simps)

lemma getNextQuestion_total:
  assumes d: "distinct (map q_id (questions cfg))"
  shows "2 * int (length (questions cfg)) \<le>
           findIndex (\<lambda>q. q_id q = cur) (questions cfg) + int n \<Longrightarrow>
         \<exists>r. getNextQuestion (Suc n) cfg cur rs st = Some r"
proof (induction n arbitrary: cur)
  case 0
  then have "length (questions cfg) = 0"
    using findIndex_bounds[of "\<lambda>q. q_id q = cur" "questions cfg"] by simp
  then show ?case by simp
next
  case (Suc n)
  let ?idx = "findIndex (\<lambda>q. q_id q = cur) (questions cfg)"
  have len: "length (questions cfg) \<le> Suc n"
    using Suc.prems findIndex_bounds[of "\<lambda>q. q_id q = cur" "questions cfg"] by simp
  show ?case
  proof (cases "find (\<lambda>q. q_id q = cur) (questions cfg)")
    case None
    then show ?thesis by simp
  next
    case (Some cq)
    show ?thesis
    proof (cases "map_of (skipLogic cfg) (logicKey_of cur rs)")
      case (Some rule)
      with \<open>find (\<lambda>q. q_id q = cur) (questions cfg) = Some cq\<close>
        applySkipLogic_total[OF d len, of rule rs st]
      show ?thesis by (simp del: applySkipLogic_def)
    next
      case None
      note norule = None
      show ?thesis
      proof (cases "at_index (questions cfg) (?idx + 1)")
        case None
        with norule \<open>find (\<lambda>q. q_id q = cur) (questions cfg) = Some cq\<close>
        show ?thesis by simp
      next
        case (Some nq)
        from at_index_Some[OF Some]
        have rng: "0 \<le> ?idx + 1" "?idx + 1 < int (length (questions cfg))"
          and nq: "nq = questions cfg ! nat (?idx + 1)" by simp_all
        have idx: "findIndex (\<lambda>q. q_id q = q_id nq) (questions cfg) = ?idx + 1"
          using findIndex_distinct[OF d, of "nat (?idx + 1)"] rng nq by simp
        have "\<exists>r. getNextQuestion (Suc n) cfg (q_id nq) rs st = Some r"
          using Suc.prems idx by (intro Suc.IH) simp
        with Some norule \<open>find (\<lambda>q. q_id q = cur) (questions cfg) = Some cq\<close>
        show ?thesis
          by (auto simp: Let_def split: sum.splits simp del: getNextQuestion.simps(2))
             (auto simp: Let_def split: sum.splits)
      qed
    qed
  qed
qed

text \<open>
  C1. \<open>getNextQuestion\<close> of the processor is a function of the configuration it was built
  with and of its three arguments: two calls that return, in whatever worlds with the
  same configuration (other session, other database, other clock) and with whatever fuel,
  return the same question (or \<open>undefined\<close>, or the same error), and each leaves its world
  as it was. When the ids of the catalog are unique the call does return, within
  \<open>2 * length + 2\<close> steps.
\<close>

theorem getNextQuestion_pure:
  "(rt_config (w_router w1) = rt_config (w_router w2) \<and>
    processor_getNextQuestion n cur rs st w1 = (Some r1, w1') \<and>
    processor_getNextQuestion m cur rs st w2 = (Some r2, w2') \<longrightarrow>
      r1 = r2 \<and> w1' = w1 \<and> w2' = w2) \<and>
   (distinct (map q_id (questions (rt_config (w_router w1)))) \<longrightarrow>
      (\<exists>r. processor_getNextQuestion (2 * length (questions (rt_config (w_router w1))) + 2)
              cur rs st w1 = (Some r, w1)))"
proof (intro conjI impI)
  assume a: "rt_config (w_router w1) = rt_config (w_router w2) \<and>
    processor_getNextQuestion n cur rs st w1 = (Some r1, w1') \<and>
    processor_getNextQuestion m cur rs st w2 = (Some r2, w2')"
  then have r1: "getNextQuestion n (rt_config (w_router w1)) cur rs st = Some r1"
    and r2: "getNextQuestion m (rt_config (w_router w1)) cur rs st = Some r2"
    by (auto simp: processor_getNextQuestion_def)
  from r1 r2 show "r1 = r2" by (rule getNextQuestion_fuel_independent)
  from a show "w1' = w1" by (auto simp: processor_getNextQuestion_def)
  from a show "w2' = w2" by (auto simp: processor_getNextQuestion_def)
next
  assume d: "distinct (map q_id (questions (rt_config (w_router w1))))"
  let ?cfg = "rt_config (w_router w1)"
  have "2 * int (length (questions ?cfg)) \<le>
          findIndex (\<lambda>q. q_id q = cur) (questions ?cfg) + int (2 * length (questions ?cfg) + 1)"
    using findIndex_bounds[of "\<lambda>q. q_id q = cur" "questions ?cfg"] by simp
  from getNextQuestion_total[OF d this, of rs st]
  obtain r where "getNextQuestion (Suc (2 * length (questions ?cfg) + 1)) ?cfg cur rs st = Some r"
    by blast
  then show "\<exists>r. processor_getNextQuestion (2 * length (questions ?cfg) + 2) cur rs st w1
               = (Some r, w1)"
    by (simp add: processor_getNextQuestion_def)
qed

theorem getNextQuestion_pure_witness:
  "processor_getNextQuestion 1 ''q1'' ex_answer_B None ex_jump_world =
     (Some (Inr (Some (ex_q ''q5'' ''interest'' False))), ex_jump_world) \<and>
   processor_getNextQuestion 12 ''q1'' ex_answer_B None (ex_jump_world\<lparr> w_reads := 9 \<rparr>) =
     (Some (Inr (Some (ex_q ''q5'' ''interest'' False))), ex_jump_world\<lparr> w_reads := 9 \<rparr>)"
proof -
  have cfg: "rt_config (w_router ex_jump_world) = ex_catalog5"
    "rt_config (w_router (ex_jump_world\<lparr> w_reads := 9 \<rparr>)) = ex_catalog5"
    by (simp_all add: ex_jump_world_def ex_world_def ex_router_def)
  have run1: "processor_getNextQuestion 1 ''q1'' ex_answer_B None ex_jump_world =
     (Some (Inr (Some (ex_q ''q5'' ''interest'' False))), ex_jump_world)"
    by (simp add: processor_getNextQuestion_def cfg)
       (simp add: ex_catalog5_def ex_answer_B_def ex_q_def ex_r_def logicKey_of_def
          applySkipLogic_def ex_jump_rule_def)
  have d: "distinct (map q_id (questions (rt_config (w_router (ex_jump_world\<lparr> w_reads := 9 \<rparr>)))))"
    by (simp add: cfg) (simp add: ex_catalog5_def ex_q_def)
  have len: "2 * length (questions (rt_config (w_router (ex_jump_world\<lparr> w_reads := 9 \<rparr>)))) + 2 = 12"
    by (simp add: cfg) (simp add: ex_catalog5_def)
  from getNextQuestion_pure
         [of "ex_jump_world\<lparr> w_reads := 9 \<rparr>" ex_jump_world 12 "''q1''" ex_answer_B None _ _ 1
             "Inr (Some (ex_q ''q5'' ''interest'' False))" ex_jump_world]
       d len run1 cfg
  have "processor_getNextQuestion 12 ''q1'' ex_answer_B None (ex_jump_world\<lparr> w_reads := 9 \<rparr>) =
     (Some (Inr (Some (ex_q ''q5'' ''interest'' False))), ex_jump_world\<lparr> w_reads := 9 \<rparr>)"
    by (metis (no_types, lifting))
  with run1 show ?thesis by simp
qed

subsection \<open>Conditions, stakeholder filter, submission gate\<close>

text \<open>
  C7. When the response that a condition refers to is missing, the value-equals test is
  not met, the includesNone (answer set is empty) test is met, and the includesAny
  (answer set is non-empty) test is not met. The tests are tried in this order, so a
  condition is of the first kind whose field is set.
\<close>

theorem evaluateCondition_missing_response:
  assumes "map_of rs (c_from c) = None"
  shows "(truthy (c_value c) \<longrightarrow> \<not> evaluateCondition c rs) \<and>
         (\<not> truthy (c_value c) \<and> c_includesNone c \<longrightarrow> evaluateCondition c rs) \<and>
         (\<not> truthy (c_value c) \<and> \<not> c_includesNone c \<and> c_includesAny c \<longrightarrow>
            \<not> evaluateCondition c rs)"
  using assms by (simp add: evaluateCondition_def)

theorem evaluateCondition_missing_response_witness:
  "\<not> evaluateCondition
       \<lparr> c_from = ''q5'', c_value = Some ''Yes'', c_includesNone = False, c_includesAny = False \<rparr> [] \<and>
   evaluateCondition
       \<lparr> c_from = ''q5'', c_value = None, c_includesNone = True, c_includesAny = False \<rparr> [] \<and>
   \<not> evaluateCondition
       \<lparr> c_from = ''q5'', c_value = None, c_includesNone = False, c_includesAny = True \<rparr> []"
  using evaluateCondition_missing_response
          [of "[]" "\<lparr> c_from = ''q5'', c_value = Some ''Yes'', c_includesNone = False, c_includesAny = False \<rparr>"]
        evaluateCondition_missing_response
          [of "[]" "\<lparr> c_from = ''q5'', c_value = None, c_includesNone = True, c_includesAny = False \<rparr>"]
        evaluateCondition_missing_response
          [of "[]" "\<lparr> c_from = ''q5'', c_value = None, c_includesNone = False, c_includesAny = True \<rparr>"]
  by (simp add: truthy_simps)

text \<open>
  C6. A catalog question that declares \<open>stakeholderTypes\<close> is skipped whenever the
  session's stakeholder type is absent or not in that list, whatever the responses are.
  Question ids are unique in the catalog (the data model's invariant), so the id
  resolves to the question itself.
\<close>

theorem shouldSkip_stakeholder_restricted:
  assumes "q \<in> set (questions cfg)"
    and "distinct (map q_id (questions cfg))"
    and "q_logic q = Some l"
    and "stakeholderTypes l = Some ts"
    and "st = None \<or> (\<exists>s. st = Some s \<and> s \<notin> set ts)"
  shows "shouldSkip cfg (q_id q) rs st = Inr True"
proof -
  have found: "find (\<lambda>q'. q_id q' = q_id q) (questions cfg) = Some q"
    using assms(1,2) by (simp add: find_distinct_id)
  have "stakeholder_excluded q st"
    using assms(3,4,5)
    by (auto simp: stakeholder_excluded_def truthy_def)
  with found show ?thesis
    by (simp add: shouldSkip_def)
qed

theorem shouldSkip_stakeholder_restricted_witness:
  "shouldSkip ex_catalog_q9 ''q9'' ex_two (Some ''consumer'') = Inr True \<and>
   shouldSkip ex_catalog_q9 ''q9'' [] None = Inr True"
  using shouldSkip_stakeholder_restricted
          [of ex_q9 ex_catalog_q9 "\<lparr> stakeholderTypes = Some [''retailer''] \<rparr>" "[''retailer'']"
              "Some ''consumer''" ex_two]
        shouldSkip_stakeholder_restricted
          [of ex_q9 ex_catalog_q9 "\<lparr> stakeholderTypes = Some [''retailer''] \<rparr>" "[''retailer'']"
              None "[]"]
  by (simp add: ex_catalog_q9_def ex_q9_def ex_q_def)

text \<open>
  C5. \<open>canSubmit\<close> is true exactly when every required question has a stored response,
  and false exactly when some required question has none.
\<close>

theorem canSubmit_iff_required_answered:
  "(canSubmit rt \<longleftrightarrow>
      (\<forall>q \<in> set (questions (rt_config rt)). q_required q \<longrightarrow> Map_has (rt_responses rt) (q_id q))) \<and>
   (\<not> canSubmit rt \<longleftrightarrow>
      (\<exists>q \<in> set (questions (rt_config rt)). q_required q \<and> \<not> Map_has (rt_responses rt) (q_id q)))"
  by (auto simp: canSubmit_def Let_def filter_empty_conv)

theorem canSubmit_iff_required_answered_witness:
  "\<not> canSubmit (ex_router ex_catalog3 ex_two) \<and> canSubmit (ex_router ex_catalog3 ex_three)"
  using canSubmit_iff_required_answered [of "ex_router ex_catalog3 ex_two"]
        canSubmit_iff_required_answered [of "ex_router ex_catalog3 ex_three"]
  by (simp add: ex_router_def ex_catalog3_def ex_two_def ex_three_def ex_q_def Map_has_def)

section \<open>Properties of the router\<close>








text \<open>
  C9 (as amended). \<open>initialize\<close> throws \<open>Session not found\<close> when the session does not
  exist and \<open>navigateToQuestion\<close> throws \<open>Question ... not found\<close> when the id is not in
  the catalog, leaving the world as it was; \<open>getNextQuestion\<close> on a current id that is not
  in the catalog throws nothing and returns the first question of the catalog
  (\<open>undefined\<close> when the catalog is empty).
\<close>

theorem navigation_not_found_amended:
  "(getSession sessionId w = None \<longrightarrow>
      fst (initialize sessionId w) = Inl (Error ''Session not found'')) \<and>
   (find (\<lambda>q. q_id q = questionId) (questions (rt_config (w_router w))) = None \<longrightarrow>
      navigateToQuestion questionId w =
        (Inl (Error (''Question '' @ questionId @ '' not found'')), w)) \<and>
   (find (\<lambda>q. q_id q = currentQuestionId) (questions cfg) = None \<longrightarrow>
      getNextQuestion (Suc n) cfg currentQuestionId rs st =
        Some (Inr (at_index (questions cfg) 0)))"
  by (simp add: initialize_def navigateToQuestion_def Let_def)

theorem navigation_not_found_amended_witness:
  "fst (initialize 7 (ex_world ex_catalog3 ex_two)) = Inl (Error ''Session not found'') \<and>
   navigateToQuestion ''q99'' (ex_world ex_catalog3 ex_two) =
     (Inl (Error ''Question q99 not found''), ex_world ex_catalog3 ex_two) \<and>
   getNextQuestion 1 ex_catalog3 ''q99'' ex_two None =
     Some (Inr (Some (ex_q ''q1'' ''screening'' True)))"
  using navigation_not_found_amended
          [of 7 "ex_world ex_catalog3 ex_two" "''q99''" "''q99''" ex_catalog3 0 ex_two None]
  by (simp add: ex_world_def ex_router_def ex_catalog3_def ex_q_def getSession_def at_index_def)

text \<open>
  The third part of the claim fails: from the unknown id \<open>q99\<close> the processor answers
  with the catalog's first question, and no error reaches the caller.
\<close>

theorem getNextQuestion_unresolvable_counterexample:
  "processor_getNextQuestion 5 ''q99'' ex_two None (ex_world ex_catalog3 ex_two) =
     (Some (Inr (Some (ex_q ''q1'' ''screening'' True))), ex_world ex_catalog3 ex_two)"
  by (simp add: processor_getNextQuestion_def ex_world_def ex_router_def ex_catalog3_def
        ex_q_def at_index_def numeral_eq_Suc)

section \<open>Completion\<close>









section \<open>Properties of the funnel metrics\<close>





lemma current_funnel_update_same:
  "determineFunnelStage r = Some s \<Longrightarrow>
   current_funnel (updateFunnelMetrics r e) s = Math_max (current_funnel e s) (calculateStageScore r)"
  by (simp add: updateFunnelMetrics_def current_funnel_def Let_def)







lemma ex_stage_facts:
  "determineFunnelStage ex_recall = Some Awareness"
  "determineFunnelStage ex_q55 = Some Advocacy"
  "determineFunnelStage ex_nps_label = Some Advocacy"
  "current_funnel ex_engine s = Fin 0"
  by (simp_all add: determineFunnelStage_def ex_recall_def ex_q55_def ex_nps_label_def ex_r_def
        current_funnel_def ex_engine_def default_funnel_def)


text \<open>
  C10 (as amended). A response whose question id is none of \<open>q8\<close>, \<open>q20\<close>, \<open>q31\<close>,
  \<open>q43\<close>, \<open>q54\<close> scores the constant 5, so processing it sets the score of its stage to
  \<open>Math.max(previous, 5)\<close>, which is at least 5 whenever the previous score of the stage
  is a number.
\<close>

theorem default_stage_score_amended:
  assumes "r_questionId r \<notin> {''q8'', ''q20'', ''q31'', ''q43'', ''q54''}"
  shows "calculateStageScore r = Fin 5 \<and>
         (determineFunnelStage r = Some s \<longrightarrow>
            current_funnel (updateFunnelMetrics r e) s = Math_max (current_funnel e s) (Fin 5)) \<and>
         (determineFunnelStage r = Some s \<and> current_funnel e s \<noteq> NaN \<longrightarrow>
            jsge (current_funnel (updateFunnelMetrics r e) s) (Fin 5))"
proof -
  have five: "calculateStageScore r = Fin 5"
    using assms by (simp add: calculateStageScore_def)
  have ge: "x \<noteq> NaN \<Longrightarrow> jsge (Math_max x (Fin 5)) (Fin 5)" for x
    by (cases x) (simp_all add: jsge_def Math_max_def)
  show ?thesis
    using five ge by (simp add: current_funnel_update_same)
qed

theorem default_stage_score_amended_witness:
  "calculateStageScore ex_q55 = Fin 5 \<and>
   current_funnel (updateFunnelMetrics ex_q55 ex_engine) Advocacy = Fin 5 \<and>
   jsge (current_funnel (updateFunnelMetrics ex_q55 ex_engine) Advocacy) (Fin 5)"
proof -
  have other: "r_questionId ex_q55 \<notin> {''q8'', ''q20'', ''q31'', ''q43'', ''q54''}"
    by (simp add: ex_q55_def ex_r_def)
  show ?thesis
    using default_stage_score_amended [OF other, of Advocacy ex_engine]
    by (simp add: ex_stage_facts Math_max_def jsge_def)
qed

text \<open>
  Without the proviso the claim fails: a \<open>q54\<close> response whose value has no digits
  stores \<open>NaN\<close> for the advocacy stage, and the default score of the next advocacy
  response leaves it \<open>NaN\<close>, which is not at least 5.
\<close>

theorem default_stage_score_counterexample:
  "current_funnel (updateFunnelMetrics ex_q55 (updateFunnelMetrics ex_nps_label ex_engine)) Advocacy
     = NaN \<and>
   \<not> jsge (current_funnel (updateFunnelMetrics ex_q55 (updateFunnelMetrics ex_nps_label ex_engine))
             Advocacy) (Fin 5)"
proof -
  have nan: "calculateStageScore ex_nps_label = NaN"
    by (simp add: calculateStageScore_def ex_nps_label_def ex_r_def parseInt_def parseInt_str_def
          isWhitespace_def is_digit_def digit_of_def Let_def)
  show ?thesis
    by (simp add: current_funnel_update_same ex_stage_facts nan Math_max_def jsge_def)
qed

end
